theory Spec2Isabelle
  imports Main "HOL-Library.Sublist"
begin

section \<open>JavaScript values used by the authentication subsystem\<close>

text \<open>
  A JavaScript number that the code obtains from \<^verbatim>\<open>parseInt\<close> is an integer or
  \<^verbatim>\<open>NaN\<close>; a \<^verbatim>\<open>Date\<close> built from such a number is a time in milliseconds
  since the epoch or an invalid date. Every comparison with \<^verbatim>\<open>NaN\<close> is false.
  Numbers stay within the range in which JavaScript integers and dates are exact.
\<close>

datatype num = Num int | NaN

datatype jsdate = Date int | InvalidDate

text \<open>An error object that is thrown: its \<^verbatim>\<open>name\<close> and its \<^verbatim>\<open>message\<close>.\<close>

record thrown =
  name :: string
  message :: string

text \<open>\<^verbatim>\<open>n >= m\<close> for an integer \<open>n\<close> and a number \<open>m\<close>.\<close>

fun num_ge :: "int \<Rightarrow> num \<Rightarrow> bool" where
  "num_ge n (Num m) = (n \<ge> m)"
| "num_ge n NaN = False"

text \<open>\<^verbatim>\<open>new Date(now + m)\<close> for an integer \<open>now\<close> and a number \<open>m\<close>.\<close>

fun newDate_plus :: "int \<Rightarrow> num \<Rightarrow> jsdate" where
  "newDate_plus now (Num m) = Date (now + m)"
| "newDate_plus now NaN = InvalidDate"

text \<open>\<^verbatim>\<open>date > now\<close>: the date is compared through its time value.\<close>

fun date_gt :: "jsdate \<Rightarrow> int \<Rightarrow> bool" where
  "date_gt (Date t) now = (t > now)"
| "date_gt InvalidDate now = False"

text \<open>
  White space as \<^verbatim>\<open>parseInt\<close> and \<^verbatim>\<open>String.prototype.trim\<close> skip it, over
  8-bit characters: TAB, LF, VT, FF, CR, SPACE and NBSP.
\<close>

definition isWhiteSpace :: "char \<Rightarrow> bool" where
  "isWhiteSpace c = (c \<in> set [CHR 0x09, CHR 0x0A, CHR 0x0B, CHR 0x0C, CHR 0x0D, CHR 0x20, CHR 0xA0])"

definition isDigit :: "char \<Rightarrow> bool" where
  "isDigit c = (c \<in> set ''0123456789'')"

definition digitValue :: "char \<Rightarrow> int" where
  "digitValue c = int (of_char c) - 48"

definition digitsValue :: "string \<Rightarrow> int" where
  "digitsValue z = foldl (\<lambda>a c. 10 * a + digitValue c) 0 z"

text \<open>
  \<^verbatim>\<open>parseInt(str, 10)\<close>: leading white space is skipped, one sign is read, then the
  longest run of decimal digits; no digit gives \<^verbatim>\<open>NaN\<close>.
\<close>

definition parseInt :: "string \<Rightarrow> num" where
  "parseInt str =
     (let s = dropWhile isWhiteSpace str;
          sign = (case s of [] \<Rightarrow> 1 | c # _ \<Rightarrow> if c = CHR ''-'' then - 1 else (1::int));
          s' = (case s of [] \<Rightarrow> s | c # r \<Rightarrow> if c = CHR ''-'' \<or> c = CHR ''+'' then r else s);
          z = takeWhile isDigit s'
      in if z = [] then NaN else Num (sign * digitsValue z))"

text \<open>\<^verbatim>\<open>str.trim()\<close>.\<close>

definition trim :: "string \<Rightarrow> string" where
  "trim s = rev (dropWhile isWhiteSpace (rev (dropWhile isWhiteSpace s)))"

text \<open>
  \<^verbatim>\<open>process.env.X || 'dflt'\<close>: an unset or empty variable gives the default.
\<close>

definition env_or :: "string option \<Rightarrow> string \<Rightarrow> string" where
  "env_or v dflt = (case v of None \<Rightarrow> dflt | Some s \<Rightarrow> if s = [] then dflt else s)"

text \<open>Truthiness of an optional string: \<^verbatim>\<open>undefined\<close>, \<^verbatim>\<open>null\<close> and \<^verbatim>\<open>''\<close> are falsy.\<close>

fun truthy :: "string option \<Rightarrow> bool" where
  "truthy None = False"
| "truthy (Some s) = (s \<noteq> [])"

record env =
  MAX_LOGIN_ATTEMPTS :: "string option"
  LOCKOUT_TIME :: "string option"
  BCRYPT_ROUNDS :: "string option"

section \<open>The user model (User.js)\<close>

text \<open>
  The fields of the user document that the methods below read or write. Times are
  milliseconds since the epoch. \<open>password\<close> is the transient plain-text field of the
  pre-save hook.
\<close>

record user =
  uid :: string
  firstName :: string
  lastName :: string
  fullName :: "string option"
  email :: string
  roles :: "string list"
  password :: "string option"
  passwordHash :: "string option"
  passwordSalt :: "string option"
  isActive :: bool
  isLocked :: bool
  lockUntil :: "jsdate option"
  lockReason :: "string option"
  loginAttempts :: int
  failedLoginAttempts :: int
  lastLogin :: "int option"
  loginCount :: int
  lastPasswordChange :: int
  passwordHistory :: "string list"

subsection \<open>The pre-save hook\<close>

text \<open>
  \<^verbatim>\<open>userSchema.pre('save', ...)\<close>. \<open>genSalt\<close> and \<open>hash\<close> are
  \<^verbatim>\<open>bcrypt.genSalt\<close> and \<^verbatim>\<open>bcrypt.hash\<close>, which resolve to a string or reject;
  \<open>isModified\<close> is the document's \<^verbatim>\<open>isModified(path)\<close>; \<open>now\<close> is
  \<^verbatim>\<open>Date.now()\<close>. The result is the document after the hook and the error passed to
  \<^verbatim>\<open>next\<close>, if any. \<^verbatim>\<open>shift()\<close> removes the first element (of an empty array:
  nothing), \<^verbatim>\<open>push\<close> appends.
\<close>

definition preSave ::
  "env \<Rightarrow> (num \<Rightarrow> thrown + string) \<Rightarrow> (string \<Rightarrow> string \<Rightarrow> thrown + string) \<Rightarrow>
   (string \<Rightarrow> bool) \<Rightarrow> int \<Rightarrow> user \<Rightarrow> user \<times> thrown option" where
  "preSave e genSalt hash isModified now user0 =
     (let user1 =
            (if isModified ''firstName'' \<or> isModified ''lastName''
             then user0\<lparr>fullName := Some (trim (firstName user0 @ '' '' @ lastName user0))\<rparr>
             else user0)
      in case password user1 of
           None \<Rightarrow> (user1, None)
         | Some pw \<Rightarrow>
             if pw \<noteq> [] \<and> isModified ''password'' then
               (case genSalt (parseInt (env_or (BCRYPT_ROUNDS e) ''12'')) of
                  Inl err \<Rightarrow> (user1, Some err)
                | Inr salt \<Rightarrow>
                    (case hash pw salt of
                       Inl err \<Rightarrow> (user1, Some err)
                     | Inr h \<Rightarrow>
                         (let hist1 =
                                (if length (passwordHistory user1) \<ge> 5
                                 then drop 1 (passwordHistory user1)
                                 else passwordHistory user1);
                              hist2 =
                                (case passwordHash user1 of
                                   None \<Rightarrow> hist1
                                 | Some old \<Rightarrow> if old \<noteq> [] then hist1 @ [old] else hist1)
                          in (user1\<lparr>passwordHistory := hist2,
                                     passwordHash := Some h,
                                     passwordSalt := Some salt,
                                     lastPasswordChange := now,
                                     password := None\<rparr>, None))))
             else (user1, None))"

subsection \<open>Lockout counters\<close>

text \<open>
  The two settings that \<^verbatim>\<open>incrementLoginAttempts\<close> reads from the environment, with
  their defaults.
\<close>

definition maxAttempts :: "env \<Rightarrow> num" where
  "maxAttempts e = parseInt (env_or (MAX_LOGIN_ATTEMPTS e) ''5'')"

definition lockTime :: "env \<Rightarrow> num" where
  "lockTime e = parseInt (env_or (LOCKOUT_TIME e) ''900000'')"

text \<open>
  \<^verbatim>\<open>incrementLoginAttempts\<close>: \<open>now\<close> is \<^verbatim>\<open>Date.now()\<close> and \<open>save\<close> is the
  outcome of \<^verbatim>\<open>this.save()\<close> on the updated document (\<open>None\<close>: saved, \<open>Some err\<close>:
  rejected with \<open>err\<close>, which the method rethrows). The result is the updated document
  and what the method returns or throws.
\<close>

definition incrementLoginAttempts ::
  "env \<Rightarrow> int \<Rightarrow> (user \<Rightarrow> thrown option) \<Rightarrow> user \<Rightarrow> user \<times> (thrown + int)" where
  "incrementLoginAttempts e now save u =
     (let u1 = u\<lparr>loginAttempts := loginAttempts u + 1,
                  failedLoginAttempts := failedLoginAttempts u + 1\<rparr>;
          u2 = (if num_ge (failedLoginAttempts u1) (maxAttempts e)
                then u1\<lparr>isLocked := True,
                        lockUntil := Some (newDate_plus now (lockTime e)),
                        lockReason := Some ''Too many failed login attempts''\<rparr>
                else u1)
      in (u2, case save u2 of None \<Rightarrow> Inr (failedLoginAttempts u2) | Some err \<Rightarrow> Inl err))"

text \<open>\<^verbatim>\<open>resetLoginAttempts\<close>, with \<open>now\<close> and \<open>save\<close> as above.\<close>

definition resetLoginAttempts ::
  "int \<Rightarrow> (user \<Rightarrow> thrown option) \<Rightarrow> user \<Rightarrow> user \<times> (thrown + unit)" where
  "resetLoginAttempts now save u =
     (let u1 = u\<lparr>loginAttempts := 0,
                  failedLoginAttempts := 0,
                  isLocked := False,
                  lockUntil := None,
                  lockReason := None,
                  lastLogin := Some now,
                  loginCount := loginCount u + 1\<rparr>
      in (u1, case save u1 of None \<Rightarrow> Inr () | Some err \<Rightarrow> Inl err))"

text \<open>
  \<^verbatim>\<open>isAccountLocked\<close>: \<^verbatim>\<open>this.isLocked && this.lockUntil && this.lockUntil > Date.now()\<close>,
  read for its truthiness. A date object is truthy, \<^verbatim>\<open>null\<close> is not.
\<close>

definition isAccountLocked :: "int \<Rightarrow> user \<Rightarrow> bool" where
  "isAccountLocked now u =
     (isLocked u \<and> (case lockUntil u of None \<Rightarrow> False | Some d \<Rightarrow> date_gt d now))"

section \<open>Results of a middleware\<close>

text \<open>
  A middleware either calls \<^verbatim>\<open>next()\<close> (with what it attached to the request) or
  answers \<^verbatim>\<open>res.status(code).json({error, message})\<close>.
\<close>

datatype 'a outcome = Next 'a | Json nat string string

section \<open>The CSRF guard (security.js)\<close>

text \<open>
  The parts of a request that the guard reads: \<^verbatim>\<open>req.method\<close>, the path, the
  session object (absent when no session middleware ran), the \<^verbatim>\<open>x-csrf-token\<close>
  header and the parsed body (absent when no body was parsed) with its \<^verbatim>\<open>_csrf\<close>
  field. Tokens are strings of bytes, as \<^verbatim>\<open>Buffer.from\<close> sees them; the
  \<^verbatim>\<open>_csrf\<close> field is a string when it is present.
\<close>

record session_data =
  csrfToken :: "string option"
  userId :: "string option"

record body_data =
  body_csrf :: "string option"

record request =
  http_method :: string
  path :: string
  session :: "session_data option"
  header_csrf :: "string option"
  body :: "body_data option"

definition safeMethods :: "string list" where
  "safeMethods = [''GET'', ''HEAD'', ''OPTIONS'']"

definition skipPaths :: "string list" where
  "skipPaths =
     [''/api/auth/login'',
      ''/api/auth/register'',
      ''/api/auth/refresh'',
      ''/api/auth/google'',
      ''/api/auth/microsoft'',
      ''/api/auth/github'',
      ''/api/logs/siem'',
      ''/api/health'']"

text \<open>
  \<^verbatim>\<open>crypto.timingSafeEqual(a, b)\<close>: buffers of different byte length raise a
  \<^verbatim>\<open>RangeError\<close>; buffers of the same length are compared. How long the comparison
  takes is not part of the model.
\<close>

definition timingSafeEqual :: "string \<Rightarrow> string \<Rightarrow> thrown + bool" where
  "timingSafeEqual a b =
     (if length a \<noteq> length b
      then Inl \<lparr>name = ''RangeError'',
                message = ''Input buffers must have the same byte length''\<rparr>
      else Inr (a = b))"

text \<open>
  \<^verbatim>\<open>req.headers["x-csrf-token"] || req.body._csrf\<close>: the header when it is truthy,
  otherwise the body field; reading a field of an undefined body raises a
  \<^verbatim>\<open>TypeError\<close>.
\<close>

definition suppliedToken :: "request \<Rightarrow> thrown + string option" where
  "suppliedToken req =
     (if truthy (header_csrf req) then Inr (header_csrf req)
      else case body req of
             None \<Rightarrow> Inl \<lparr>name = ''TypeError'',
                          message = ''Cannot read properties of undefined (reading _csrf)''\<rparr>
           | Some b \<Rightarrow> Inr (body_csrf b))"

text \<open>The two early exits of the guard.\<close>

definition skipsValidation :: "request \<Rightarrow> bool" where
  "skipsValidation req =
     (http_method req \<in> set safeMethods \<or> list_ex (\<lambda>p. prefix p (path req)) skipPaths)"

text \<open>\<^verbatim>\<open>csrfProtection\<close>: the middleware's answer, or the exception it raises.\<close>

definition csrfProtection :: "request \<Rightarrow> thrown + unit outcome" where
  "csrfProtection req =
     (if http_method req \<in> set safeMethods then Inr (Next ())
      else if list_ex (\<lambda>p. prefix p (path req)) skipPaths then Inr (Next ())
      else case session req of
             None \<Rightarrow> Inr (Json 403 ''Forbidden'' ''Session required for CSRF protection'')
           | Some sess \<Rightarrow>
               (case suppliedToken req of
                  Inl err \<Rightarrow> Inl err
                | Inr csrf \<Rightarrow>
                    (case (csrf, csrfToken sess) of
                       (Some c, Some t) \<Rightarrow>
                         if c = [] \<or> t = []
                         then Inr (Json 403 ''Forbidden'' ''CSRF token required'')
                         else (case timingSafeEqual c t of
                                 Inl err \<Rightarrow> Inl err
                               | Inr same \<Rightarrow>
                                   if \<not> same
                                   then Inr (Json 403 ''Forbidden'' ''Invalid CSRF token'')
                                   else Inr (Next ()))
                     | _ \<Rightarrow> Inr (Json 403 ''Forbidden'' ''CSRF token required''))))"

text \<open>
  \<^verbatim>\<open>generateCsrfToken\<close>: \<open>bytes\<close> are the 32 bytes that \<^verbatim>\<open>crypto.randomBytes(32)\<close>
  returned, each below 256; the token is their lower-case hexadecimal form, stored on the
  session and returned.
\<close>

definition hexDigit :: "nat \<Rightarrow> char" where
  "hexDigit n = ''0123456789abcdef'' ! (n mod 16)"

definition toHex :: "nat list \<Rightarrow> string" where
  "toHex bytes = concat (map (\<lambda>b. [hexDigit (b div 16), hexDigit (b mod 16)]) bytes)"

definition generateCsrfToken :: "nat list \<Rightarrow> request \<Rightarrow> thrown + (string \<times> request)" where
  "generateCsrfToken bytes req =
     (case session req of
        None \<Rightarrow> Inl \<lparr>name = ''Error'',
                     message = ''Session middleware must be initialized before CSRF protection''\<rparr>
      | Some sess \<Rightarrow>
          (let token = toHex bytes
           in Inr (token, req\<lparr>session := Some (sess\<lparr>csrfToken := Some token\<rparr>)\<rparr>)))"

section \<open>The authentication middleware (auth.js)\<close>

text \<open>
  The claims of a verified token that the middleware reads: \<^verbatim>\<open>decoded.id\<close>.
\<close>

record payload =
  payload_id :: "string option"
  payload_email :: "string option"
  payload_roles :: "string list"

text \<open>
  The \<^verbatim>\<open>catch\<close> branch of \<^verbatim>\<open>authenticate\<close>: the answer depends on the name of
  the error only.
\<close>

definition authenticate_catch :: "thrown \<Rightarrow> user outcome" where
  "authenticate_catch err =
     (if name err = ''JsonWebTokenError'' then Json 401 ''Unauthorized'' ''Invalid access token''
      else if name err = ''TokenExpiredError''
      then Json 401 ''Unauthorized'' ''Access token has expired''
      else Json 500 ''Internal Server Error'' ''Authentication service error'')"

text \<open>
  \<^verbatim>\<open>authenticate\<close>. \<open>jwt_verify\<close> is \<^verbatim>\<open>jwt.verify(token, process.env.JWT_SECRET)\<close>,
  which returns the claims or throws; \<open>findById\<close> is \<^verbatim>\<open>User.findById\<close>, which resolves
  to a user or to \<^verbatim>\<open>null\<close>, or rejects; \<open>now\<close> is \<^verbatim>\<open>Date.now()\<close>;
  \<open>authorization\<close> is the \<^verbatim>\<open>Authorization\<close> header. \<open>Next user\<close> is \<^verbatim>\<open>next()\<close> with
  \<^verbatim>\<open>req.user = user\<close>; the ability attached next to it is computed from that same
  \<open>user\<close>.
\<close>

definition authenticate ::
  "(string \<Rightarrow> thrown + payload) \<Rightarrow> (string option \<Rightarrow> thrown + user option) \<Rightarrow> int \<Rightarrow>
   string option \<Rightarrow> user outcome" where
  "authenticate jwt_verify findById now authorization =
     (case authorization of
        None \<Rightarrow> Json 401 ''Unauthorized'' ''Access token is required''
      | Some authHeader \<Rightarrow>
          if authHeader = [] \<or> \<not> prefix ''Bearer '' authHeader
          then Json 401 ''Unauthorized'' ''Access token is required''
          else (case jwt_verify (drop 7 authHeader) of
                  Inl err \<Rightarrow> authenticate_catch err
                | Inr decoded \<Rightarrow>
                    (case findById (payload_id decoded) of
                       Inl err \<Rightarrow> authenticate_catch err
                     | Inr None \<Rightarrow> Json 401 ''Unauthorized'' ''Invalid access token''
                     | Inr (Some user) \<Rightarrow>
                         if \<not> isActive user
                         then Json 401 ''Unauthorized'' ''Account is not active''
                         else if isAccountLocked now user
                         then Json 423 ''Account Locked'' ''Account is temporarily locked''
                         else Next user)))"

text \<open>
  The errors that \<^verbatim>\<open>jwt.verify\<close> of the jsonwebtoken package throws for a token that
  is not a JWT, for a signature that does not match, and for an \<^verbatim>\<open>exp\<close> in the past.
\<close>

definition jwt_malformed :: thrown where
  "jwt_malformed = \<lparr>name = ''JsonWebTokenError'', message = ''jwt malformed''\<rparr>"

definition invalid_signature :: thrown where
  "invalid_signature = \<lparr>name = ''JsonWebTokenError'', message = ''invalid signature''\<rparr>"

definition jwt_expired :: thrown where
  "jwt_expired = \<lparr>name = ''TokenExpiredError'', message = ''jwt expired''\<rparr>"

section \<open>The login handler (authController.js)\<close>

text \<open>
  What \<^verbatim>\<open>login\<close> answers: a status with \<^verbatim>\<open>{error, message}\<close>, or the 200 reply of
  a successful login for a user. \<open>LoginSuccessful\<close> stands for the rest of the handler
  after the counters are reset and the secrets are found configured: the tokens are
  signed, the cookie and the CSRF header are set, and the user's public fields are sent.
\<close>

datatype reply = Reply nat string string | LoginSuccessful user

text \<open>
  \<^verbatim>\<open>login\<close>. \<open>emailIn\<close> and \<open>passwordIn\<close> are the two fields of the request body;
  \<open>found\<close> is what \<^verbatim>\<open>User.findOne({ email: email.toLowerCase() })\<close> gave;
  \<open>compare\<close> is \<^verbatim>\<open>bcrypt.compare(candidate, hash)\<close>, which
  \<^verbatim>\<open>comparePassword\<close> calls with the user's \<open>passwordHash\<close>; \<open>secretsSet\<close> says
  that both JWT secrets are configured; \<open>now\<close> is the time of the request. The result
  is the reply, or the error handed to \<^verbatim>\<open>next\<close>, and the document that the request
  saved, if it saved one.
\<close>

definition login ::
  "env \<Rightarrow> bool \<Rightarrow> int \<Rightarrow> (user \<Rightarrow> thrown option) \<Rightarrow>
   (string \<Rightarrow> string option \<Rightarrow> thrown + bool) \<Rightarrow> (thrown + user option) \<Rightarrow>
   string option \<Rightarrow> string option \<Rightarrow> (thrown + reply) \<times> user option" where
  "login e secretsSet now save compare found emailIn passwordIn =
     (if \<not> truthy emailIn \<or> \<not> truthy passwordIn
      then (Inr (Reply 400 ''Bad Request'' ''Email and password are required''), None)
      else case found of
             Inl err \<Rightarrow> (Inl err, None)
           | Inr None \<Rightarrow> (Inr (Reply 401 ''Unauthorized'' ''Invalid email or password''), None)
           | Inr (Some user) \<Rightarrow>
               if isAccountLocked now user
               then (Inr (Reply 423 ''Account Locked''
                       ''Account is temporarily locked due to too many failed login attempts''),
                     None)
               else if \<not> isActive user
               then (Inr (Reply 401 ''Unauthorized'' ''Account is not active''), None)
               else (case compare (case passwordIn of None \<Rightarrow> [] | Some pw \<Rightarrow> pw)
                            (passwordHash user) of
                       Inl err \<Rightarrow> (Inl err, None)
                     | Inr isPasswordValid \<Rightarrow>
                         if \<not> isPasswordValid
                         then (case incrementLoginAttempts e now save user of
                                 (user', Inl err) \<Rightarrow> (Inl err, None)
                               | (user', Inr n) \<Rightarrow>
                                   (Inr (Reply 401 ''Unauthorized'' ''Invalid email or password''),
                                    Some user'))
                         else (case resetLoginAttempts now save user of
                                 (user', Inl err) \<Rightarrow> (Inl err, None)
                               | (user', Inr _) \<Rightarrow>
                                   if \<not> secretsSet
                                   then (Inr (Reply 500 ''Internal Server Error''
                                           ''Authentication service not properly configured''),
                                         Some user')
                                   else (Inr (LoginSuccessful user'), Some user'))))"

section \<open>The change-password handler (authController.js)\<close>

text \<open>
  The paths of \<^verbatim>\<open>userSchema\<close>.
\<close>

definition schemaPaths :: "string list" where
  "schemaPaths =
     [''firstName'', ''lastName'', ''fullName'', ''email'', ''username'', ''passwordHash'',
      ''passwordSalt'', ''roles'', ''ministryId'', ''phone'', ''title'', ''employeeId'',
      ''isActive'', ''isEmailVerified'', ''isLocked'', ''lockUntil'', ''lockReason'',
      ''loginAttempts'', ''failedLoginAttempts'', ''lastLogin'', ''loginCount'',
      ''lastPasswordChange'', ''passwordHistory'', ''bio'', ''avatar'', ''preferences'',
      ''twoFactorEnabled'', ''twoFactorSecret'', ''ssoProvider'', ''ssoId'', ''createdBy'',
      ''updatedBy'', ''metadata'', ''createdAt'', ''updatedAt'']"

text \<open>
  \<^verbatim>\<open>isModified(path)\<close> on a document that was loaded from the database and whose
  properties \<open>assigned\<close> were then given new values. A document tracks the paths of its
  schema; a property that is no path of the schema is a plain property of the object, and
  \<^verbatim>\<open>isModified\<close> is false for it.
\<close>

definition modifiedAfter :: "string list \<Rightarrow> string \<Rightarrow> bool" where
  "modifiedAfter assigned p = (p \<in> set assigned \<and> p \<in> set schemaPaths)"

text \<open>
  \<^verbatim>\<open>isPasswordUsedBefore\<close>: the candidate is compared with each hash of the history in
  turn; the first match answers true, a comparison that rejects is rethrown.
\<close>

fun isPasswordUsedBefore ::
  "(string \<Rightarrow> string option \<Rightarrow> thrown + bool) \<Rightarrow> string \<Rightarrow> string list \<Rightarrow> thrown + bool" where
  "isPasswordUsedBefore compare candidate [] = Inr False"
| "isPasswordUsedBefore compare candidate (historicalPassword # rest) =
     (case compare candidate (Some historicalPassword) of
        Inl err \<Rightarrow> Inl err
      | Inr same \<Rightarrow> if same then Inr True else isPasswordUsedBefore compare candidate rest)"

text \<open>
  \<^verbatim>\<open>changePassword\<close>. \<open>user\<close> is \<^verbatim>\<open>req.user\<close>, the document that
  \<^verbatim>\<open>authenticate\<close> loaded; \<open>currentPassword\<close> and \<open>newPassword\<close> are the two fields
  of the body. \<^verbatim>\<open>user.password = newPassword\<close> assigns the one property
  \<open>password\<close>, and \<^verbatim>\<open>user.save()\<close> runs the pre-save hook and then stores the
  document (\<open>save\<close>). The result is the reply (the 200 reply has no \<open>error\<close> field,
  written as the empty string), or the error handed to \<^verbatim>\<open>next\<close>, and the document as
  the handler leaves it.
\<close>

definition changePassword ::
  "env \<Rightarrow> (string \<Rightarrow> string option \<Rightarrow> thrown + bool) \<Rightarrow> (num \<Rightarrow> thrown + string) \<Rightarrow>
   (string \<Rightarrow> string \<Rightarrow> thrown + string) \<Rightarrow> (user \<Rightarrow> thrown option) \<Rightarrow> int \<Rightarrow> user \<Rightarrow>
   string \<Rightarrow> string \<Rightarrow> (thrown + reply) \<times> user" where
  "changePassword e compare genSalt hash save now user currentPassword newPassword =
     (case compare currentPassword (passwordHash user) of
        Inl err \<Rightarrow> (Inl err, user)
      | Inr isCurrentPasswordValid \<Rightarrow>
          if \<not> isCurrentPasswordValid
          then (Inr (Reply 400 ''Bad Request'' ''Current password is incorrect''), user)
          else (case isPasswordUsedBefore compare newPassword (passwordHistory user) of
                  Inl err \<Rightarrow> (Inl err, user)
                | Inr wasPasswordUsedBefore \<Rightarrow>
                    if wasPasswordUsedBefore
                    then (Inr (Reply 400 ''Bad Request''
                            ''New password cannot be the same as a previously used password''),
                          user)
                    else (case preSave e genSalt hash (modifiedAfter [''password'']) now
                                 (user\<lparr>password := Some newPassword\<rparr>) of
                            (user', Some err) \<Rightarrow> (Inl err, user')
                          | (user', None) \<Rightarrow>
                              (case save user' of
                                 Some err \<Rightarrow> (Inl err, user')
                               | None \<Rightarrow>
                                   (Inr (Reply 200 [] ''Password changed successfully''),
                                    user')))))"

text \<open>
  Consecutive failures of the password check on one stored account, at the times
  \<open>nows\<close>: each one calls \<^verbatim>\<open>incrementLoginAttempts\<close> on the stored document, as
  \<^verbatim>\<open>login\<close> does for a password that does not match; the stored document becomes the
  updated one when the save succeeds and stays as it was when it does not.
\<close>

fun failedLogins :: "env \<Rightarrow> (user \<Rightarrow> thrown option) \<Rightarrow> int list \<Rightarrow> user \<Rightarrow> user" where
  "failedLogins e save [] u = u"
| "failedLogins e save (now # nows) u =
     (case incrementLoginAttempts e now save u of
        (u', Inr n) \<Rightarrow> failedLogins e save nows u'
      | (u', Inl err) \<Rightarrow> failedLogins e save nows u)"

section \<open>Serialising a user (the toJSON transform of User.js)\<close>

text \<open>
  The plain object \<^verbatim>\<open>ret\<close> that the transform receives: its properties in insertion
  order, each name once. \<^verbatim>\<open>delete ret.k\<close> removes the property and keeps the order of
  the others.
\<close>

type_synonym 'v obj = "(string \<times> 'v) list"

definition delete_prop :: "string \<Rightarrow> 'v obj \<Rightarrow> 'v obj" where
  "delete_prop k ret = filter (\<lambda>kv. fst kv \<noteq> k) ret"

definition toJSON_transform :: "'v obj \<Rightarrow> 'v obj" where
  "toJSON_transform ret =
     delete_prop ''__v''
       (delete_prop ''twoFactorSecret''
          (delete_prop ''passwordHistory''
             (delete_prop ''passwordSalt''
                (delete_prop ''passwordHash'' ret))))"

text \<open>The four credential fields, and an object without them.\<close>

definition credentialFields :: "string list" where
  "credentialFields = [''passwordHash'', ''passwordSalt'', ''passwordHistory'', ''twoFactorSecret'']"

definition withoutCredentials :: "'v obj \<Rightarrow> 'v obj" where
  "withoutCredentials ret = filter (\<lambda>kv. fst kv \<notin> set credentialFields) ret"

section \<open>The client's handling of a rejected credential (ApiService)\<close>




















section \<open>Sample inputs\<close>

text \<open>An environment with no variable set, and a user as the schema's defaults create it.\<close>

definition defaultEnv :: env where
  "defaultEnv = \<lparr>MAX_LOGIN_ATTEMPTS = None, LOCKOUT_TIME = None, BCRYPT_ROUNDS = None\<rparr>"

definition newUser :: user where
  "newUser =
     \<lparr>uid = ''u1'', firstName = ''Ann'', lastName = ''Lee'', fullName = Some ''Ann Lee'',
      email = ''ann@example.org'', roles = [''APPLICANT''], password = None,
      passwordHash = Some ''h0'', passwordSalt = Some ''s0'', isActive = True,
      isLocked = False, lockUntil = None, lockReason = None, loginAttempts = 0,
      failedLoginAttempts = 0, lastLogin = None, loginCount = 0, lastPasswordChange = 0,
      passwordHistory = []\<rparr>"

text \<open>A save that succeeds for every document.\<close>

definition saveOk :: "user \<Rightarrow> thrown option" where
  "saveOk v = None"

text \<open>A user whose lock ran out at time 5000 and whose lock fields were never cleared.\<close>

definition staleLockedUser :: user where
  "staleLockedUser =
     newUser\<lparr>isLocked := True, lockUntil := Some (Date 5000),
             lockReason := Some ''Too many failed login attempts'', failedLoginAttempts := 5\<rparr>"

text \<open>A password comparison that finds every candidate right.\<close>

definition compareAccepts :: "string \<Rightarrow> string option \<Rightarrow> thrown + bool" where
  "compareAccepts candidate h = Inr True"

text \<open>
  A user whose password is \<open>5\<close>, with the hashes of five earlier passwords in the
  history, and a comparison for which \<open>h\<close> followed by a password is its hash.
\<close>

definition fullHistoryUser :: user where
  "fullHistoryUser =
     newUser\<lparr>passwordHash := Some ''h5'',
             passwordHistory := [''h0'', ''h1'', ''h2'', ''h3'', ''h4'']\<rparr>"

definition compareHashes :: "string \<Rightarrow> string option \<Rightarrow> thrown + bool" where
  "compareHashes candidate h = Inr (h = Some (''h'' @ candidate))"

definition genSaltOk :: "num \<Rightarrow> thrown + string" where
  "genSaltOk rounds = Inr ''salt''"

definition hashOk :: "string \<Rightarrow> string \<Rightarrow> thrown + string" where
  "hashOk pw salt = Inr (''h'' @ pw)"

text \<open>Token verifiers: one that throws a given error, one that accepts every token as
  user \<open>u1\<close>'s.\<close>

definition jwtThrows :: "thrown \<Rightarrow> string \<Rightarrow> thrown + payload" where
  "jwtThrows err token = Inl err"

definition jwtAccepts :: "string \<Rightarrow> thrown + payload" where
  "jwtAccepts token =
     Inr \<lparr>payload_id = Some ''u1'', payload_email = Some ''ann@example.org'',
          payload_roles = [''APPLICANT'']\<rparr>"

text \<open>A user collection held as a list.\<close>

definition findIn :: "user list \<Rightarrow> string option \<Rightarrow> thrown + user option" where
  "findIn users i = Inr (find (\<lambda>u. Some (uid u) = i) users)"

text \<open>Requests to the CSRF guard.\<close>

definition siemPost :: request where
  "siemPost =
     \<lparr>http_method = ''POST'', path = ''/api/logs/siem'', session = None, header_csrf = None,
      body = Some \<lparr>body_csrf = None\<rparr>\<rparr>"

definition sessionWith :: "string \<Rightarrow> session_data" where
  "sessionWith t = \<lparr>csrfToken = Some t, userId = Some ''u1''\<rparr>"

definition grantPost :: "session_data option \<Rightarrow> string option \<Rightarrow> request" where
  "grantPost sess hdr =
     \<lparr>http_method = ''POST'', path = ''/api/grants'', session = sess, header_csrf = hdr,
      body = Some \<lparr>body_csrf = None\<rparr>\<rparr>"

text \<open>Two serialised users that differ in the credential fields only.\<close>

definition annObject :: "string obj" where
  "annObject =
     [(''_id'', ''u1''), (''email'', ''ann@example.org''), (''passwordHash'', ''h0''),
      (''passwordSalt'', ''s0''), (''passwordHistory'', ''[]''), (''twoFactorSecret'', ''null''),
      (''isActive'', ''true''), (''__v'', ''0'')]"

definition annObject' :: "string obj" where
  "annObject' =
     [(''_id'', ''u1''), (''email'', ''ann@example.org''), (''passwordHash'', ''h9''),
      (''passwordSalt'', ''s9''), (''passwordHistory'', ''[h0]''), (''twoFactorSecret'', ''JBSW''),
      (''isActive'', ''true''), (''__v'', ''0'')]"

text \<open>Two draws of 32 random bytes, and a session that holds the token of the second.\<close>

definition bytesA :: "nat list" where
  "bytesA = replicate 32 171"

definition bytesB :: "nat list" where
  "bytesB = replicate 32 205"

definition sessionB :: session_data where
  "sessionB = sessionWith (toHex bytesB)"





section \<open>Lockout: threshold, lazy unlock, reset\<close>

lemma parseInt_5: "parseInt ''5'' = Num 5"
  by (simp add: parseInt_def isWhiteSpace_def isDigit_def digitsValue_def digitValue_def)

lemma parseInt_900000: "parseInt ''900000'' = Num 900000"
  by (simp add: parseInt_def isWhiteSpace_def isDigit_def digitsValue_def digitValue_def)

lemma maxAttempts_default: "maxAttempts defaultEnv = Num 5"
  by (simp add: maxAttempts_def defaultEnv_def env_or_def parseInt_5)

lemma lockTime_default: "lockTime defaultEnv = Num 900000"
  by (simp add: lockTime_def defaultEnv_def env_or_def parseInt_900000)

lemma failedLogins_append:
  "failedLogins e save (xs @ ys) u = failedLogins e save ys (failedLogins e save xs u)"
  by (induction xs arbitrary: u) (simp_all split: prod.splits sum.splits)

lemma failedLogins_saved:
  assumes "\<forall>v. save v = None"
  shows "failedLogins e save (now # nows) u
         = failedLogins e save nows (fst (incrementLoginAttempts e now save u))"
  using assms by (simp add: incrementLoginAttempts_def Let_def)

lemma failedLogins_below_threshold:
  assumes "\<forall>v. save v = None" and "maxAttempts e = Num t" and "\<not> isLocked u"
    and "failedLoginAttempts u + int (length nows) < t"
  shows "\<not> isLocked (failedLogins e save nows u) \<and>
         failedLoginAttempts (failedLogins e save nows u)
           = failedLoginAttempts u + int (length nows)"
  using assms(3,4)
proof (induction nows arbitrary: u)
  case Nil
  then show ?case by simp
next
  case (Cons now nows)
  let ?u' = "fst (incrementLoginAttempts e now save u)"
  have nl: "\<not> isLocked ?u'"
    and cnt: "failedLoginAttempts ?u' = failedLoginAttempts u + 1"
    using Cons.prems assms(2) by (simp_all add: incrementLoginAttempts_def Let_def)
  have lt: "failedLoginAttempts ?u' + int (length nows) < t"
    using cnt Cons.prems(2) by simp
  from Cons.IH [OF nl lt] cnt failedLogins_saved [OF assms(1), of e now nows u]
  show ?case by simp
qed

text \<open>
  Claim C3. Let the threshold \<open>t \<ge> 1\<close> and the lock duration \<open>d\<close> be the configured
  numbers, let every save succeed, and let the user start unlocked with
  \<open>failedLoginAttempts = 0\<close>. Then any \<open>t - 1\<close> consecutive failed logins leave
  \<open>isLocked\<close> false, and the failure that follows them, at time \<open>now\<close>, whose
  increment reaches the threshold, sets \<open>isLocked\<close> and \<open>lockUntil = now + d\<close>. With
  no variable set the threshold is 5 and the duration 900000 ms, which is 15 minutes.
\<close>

theorem lockout_at_threshold:
  assumes "maxAttempts e = Num t" and "1 \<le> t" and "lockTime e = Num d"
    and "\<forall>v. save v = None"
    and "failedLoginAttempts u = 0" and "\<not> isLocked u"
    and "int (length nows) = t - 1"
  shows "\<not> isLocked (failedLogins e save nows u) \<and>
         isLocked (failedLogins e save (nows @ [now]) u) \<and>
         lockUntil (failedLogins e save (nows @ [now]) u) = Some (Date (now + d)) \<and>
         maxAttempts defaultEnv = Num 5 \<and> lockTime defaultEnv = Num (15 * 60 * 1000)"
proof -
  let ?v = "failedLogins e save nows u"
  have below: "\<not> isLocked ?v \<and> failedLoginAttempts ?v = t - 1"
    using failedLogins_below_threshold [OF assms(4) assms(1) assms(6), of nows] assms(5,7)
    by simp
  have last: "failedLogins e save (nows @ [now]) u = fst (incrementLoginAttempts e now save ?v)"
    using failedLogins_saved [OF assms(4), of e now "[]" ?v] by (simp add: failedLogins_append)
  have "isLocked (fst (incrementLoginAttempts e now save ?v))"
    and "lockUntil (fst (incrementLoginAttempts e now save ?v)) = Some (Date (now + d))"
    using below assms(1,3) by (simp_all add: incrementLoginAttempts_def Let_def)
  with below last show ?thesis by (simp add: maxAttempts_default lockTime_default)
qed

text \<open>
  With the defaults: four failures leave the new user unlocked, the fifth, at time 5000,
  locks the account until 905000.
\<close>

theorem lockout_at_threshold_witness:
  "maxAttempts defaultEnv = Num 5 \<and> lockTime defaultEnv = Num 900000 \<and>
   failedLoginAttempts newUser = 0 \<and> \<not> isLocked newUser \<and>
   \<not> isLocked (failedLogins defaultEnv saveOk [1000, 2000, 3000, 4000] newUser) \<and>
   isLocked (failedLogins defaultEnv saveOk ([1000, 2000, 3000, 4000] @ [5000]) newUser) \<and>
   lockUntil (failedLogins defaultEnv saveOk ([1000, 2000, 3000, 4000] @ [5000]) newUser)
     = Some (Date 905000)"
proof -
  have s: "\<forall>v. saveOk v = None" by (simp add: saveOk_def)
  have f: "failedLoginAttempts newUser = 0" and k: "\<not> isLocked newUser"
    by (simp_all add: newUser_def)
  show ?thesis
    using lockout_at_threshold [OF maxAttempts_default _ lockTime_default s f k,
        of "[1000, 2000, 3000, 4000]" 5000]
      maxAttempts_default lockTime_default f k
    by simp
qed

text \<open>
  Claim C4. When \<open>lockUntil\<close> is a time before \<open>now\<close>, \<^verbatim>\<open>isAccountLocked\<close> answers
  that the account is not locked, whatever \<open>isLocked\<close> and the other fields hold (the
  read changes no field), and a login at that time is not answered ``Account Locked''.
\<close>

theorem lazy_unlock:
  "lockUntil u = Some (Date t) \<Longrightarrow> t < now \<Longrightarrow>
   \<not> isAccountLocked now u \<and>
   fst (login e secretsSet now save compare (Inr (Some u)) emailIn passwordIn)
     \<noteq> Inr (Reply 423 ''Account Locked''
              ''Account is temporarily locked due to too many failed login attempts'')"
  by (auto simp: isAccountLocked_def login_def split: sum.splits prod.splits)

theorem lazy_unlock_witness:
  "lockUntil staleLockedUser = Some (Date 5000) \<and> (5000::int) < 6000 \<and>
   isLocked staleLockedUser \<and> \<not> isAccountLocked 6000 staleLockedUser \<and>
   fst (login defaultEnv True 6000 saveOk compareAccepts (Inr (Some staleLockedUser))
          (Some ''ann@example.org'') (Some ''pw''))
     \<noteq> Inr (Reply 423 ''Account Locked''
              ''Account is temporarily locked due to too many failed login attempts'')"
  using lazy_unlock [of staleLockedUser 5000 6000 defaultEnv True saveOk compareAccepts
      "Some ''ann@example.org''" "Some ''pw''"]
  by (simp add: staleLockedUser_def)

text \<open>
  Claim C5. Whatever the user document holds, \<^verbatim>\<open>resetLoginAttempts\<close> leaves
  \<open>failedLoginAttempts = 0\<close>, \<open>isLocked\<close> false, and \<open>lockUntil\<close> and \<open>lockReason\<close>
  null; and every login that is answered as successful has saved the user's document
  in that state.
\<close>

theorem reset_clears_lockout:
  "(failedLoginAttempts (fst (resetLoginAttempts now save u)) = 0 \<and>
    \<not> isLocked (fst (resetLoginAttempts now save u)) \<and>
    lockUntil (fst (resetLoginAttempts now save u)) = None \<and>
    lockReason (fst (resetLoginAttempts now save u)) = None) \<and>
   (\<forall>u'. fst (login e secretsSet now save compare found emailIn passwordIn)
           = Inr (LoginSuccessful u') \<longrightarrow>
         snd (login e secretsSet now save compare found emailIn passwordIn) = Some u' \<and>
         failedLoginAttempts u' = 0 \<and> \<not> isLocked u' \<and> lockUntil u' = None \<and>
         lockReason u' = None)"
  by (auto simp: resetLoginAttempts_def login_def Let_def
      split: sum.splits prod.splits option.splits if_splits)

text \<open>
  A user with five failures and a lock that has run out logs in with the right
  password: the login succeeds and the saved document has the counters reset.
\<close>

theorem reset_clears_lockout_witness:
  "failedLoginAttempts staleLockedUser = 5 \<and> isLocked staleLockedUser \<and>
   fst (login defaultEnv True 6000 saveOk compareAccepts (Inr (Some staleLockedUser))
          (Some ''ann@example.org'') (Some ''pw''))
     = Inr (LoginSuccessful (fst (resetLoginAttempts 6000 saveOk staleLockedUser))) \<and>
   failedLoginAttempts (fst (resetLoginAttempts 6000 saveOk staleLockedUser)) = 0 \<and>
   \<not> isLocked (fst (resetLoginAttempts 6000 saveOk staleLockedUser)) \<and>
   lockUntil (fst (resetLoginAttempts 6000 saveOk staleLockedUser)) = None"
proof -
  have ok: "fst (login defaultEnv True 6000 saveOk compareAccepts (Inr (Some staleLockedUser))
          (Some ''ann@example.org'') (Some ''pw''))
     = Inr (LoginSuccessful (fst (resetLoginAttempts 6000 saveOk staleLockedUser)))"
    by (simp add: login_def isAccountLocked_def staleLockedUser_def newUser_def
        compareAccepts_def resetLoginAttempts_def saveOk_def Let_def)
  have st: "failedLoginAttempts staleLockedUser = 5 \<and> isLocked staleLockedUser"
    by (simp add: staleLockedUser_def)
  from reset_clears_lockout [of 6000 saveOk staleLockedUser defaultEnv True compareAccepts
      "Inr (Some staleLockedUser)" "Some ''ann@example.org''" "Some ''pw''"] ok st
  show ?thesis by blast
qed

section \<open>Password history\<close>

text \<open>
  The hook itself never lets a history of at most 5 hashes grow beyond 5, whatever
  \<^verbatim>\<open>isModified\<close> answers.
\<close>

lemma preSave_history_bound:
  "length (passwordHistory u) \<le> 5 \<Longrightarrow>
   length (passwordHistory (fst (preSave e genSalt hash isModified now u))) \<le> 5"
  by (auto simp: preSave_def Let_def split: option.splits sum.splits)

lemma password_not_tracked: "\<not> modifiedAfter [''password''] ''password''"
  by (simp add: modifiedAfter_def schemaPaths_def)

lemma preSave_untracked_password:
  "preSave e genSalt hash (modifiedAfter [''password'']) now u = (u, None)"
  by (simp add: preSave_def modifiedAfter_def schemaPaths_def split: option.splits)

text \<open>
  Claim C8, where the code departs from it. \<open>password\<close> is no path of the schema, so
  after \<^verbatim>\<open>user.password = newPassword\<close> the hook finds
  \<^verbatim>\<open>isModified('password')\<close> false and skips the branch that hashes the password
  and moves the old hash into the history. Whatever \<^verbatim>\<open>changePassword\<close> is given,
  it leaves \<open>passwordHistory\<close>, \<open>passwordHash\<close> and \<open>passwordSalt\<close> as they were:
  nothing is evicted and the superseded hash is not appended. For the user with five
  earlier hashes, the right current password and a new password never used, the handler
  answers 200 ``Password changed successfully'' and the history is still the same five
  hashes.
\<close>

theorem changePassword_skips_history:
  "passwordHistory (snd (changePassword e compare genSalt hash save now u cur new))
     = passwordHistory u \<and>
   passwordHash (snd (changePassword e compare genSalt hash save now u cur new))
     = passwordHash u \<and>
   passwordSalt (snd (changePassword e compare genSalt hash save now u cur new))
     = passwordSalt u \<and>
   fst (changePassword defaultEnv compareHashes genSaltOk hashOk saveOk 7000 fullHistoryUser
          ''5'' ''6'')
     = Inr (Reply 200 [] ''Password changed successfully'') \<and>
   passwordHistory (snd (changePassword defaultEnv compareHashes genSaltOk hashOk saveOk 7000
          fullHistoryUser ''5'' ''6''))
     = [''h0'', ''h1'', ''h2'', ''h3'', ''h4''] \<and>
   passwordHash (snd (changePassword defaultEnv compareHashes genSaltOk hashOk saveOk 7000
          fullHistoryUser ''5'' ''6''))
     = Some ''h5''"
proof -
  have keep: "passwordHistory (snd (changePassword e compare genSalt hash save now u cur new))
        = passwordHistory u \<and>
      passwordHash (snd (changePassword e compare genSalt hash save now u cur new))
        = passwordHash u \<and>
      passwordSalt (snd (changePassword e compare genSalt hash save now u cur new))
        = passwordSalt u"
    for e compare genSalt hash save now u cur new
    by (auto simp: changePassword_def preSave_untracked_password
        split: sum.splits option.splits)
  have ok: "fst (changePassword defaultEnv compareHashes genSaltOk hashOk saveOk 7000
        fullHistoryUser ''5'' ''6'') = Inr (Reply 200 [] ''Password changed successfully'')"
    by (simp add: changePassword_def preSave_untracked_password compareHashes_def saveOk_def
        fullHistoryUser_def newUser_def)
  from keep [of defaultEnv compareHashes genSaltOk hashOk saveOk 7000 fullHistoryUser
      "''5''" "''6''"]
  have "passwordHistory (snd (changePassword defaultEnv compareHashes genSaltOk hashOk saveOk
        7000 fullHistoryUser ''5'' ''6'')) = [''h0'', ''h1'', ''h2'', ''h3'', ''h4'']"
    and "passwordHash (snd (changePassword defaultEnv compareHashes genSaltOk hashOk saveOk
        7000 fullHistoryUser ''5'' ''6'')) = Some ''h5''"
    by (simp_all add: fullHistoryUser_def)
  with keep ok show ?thesis by simp
qed

section \<open>The authentication middleware\<close>

text \<open>
  Claim C1, as the code has it. When the header carries a bearer token and
  \<^verbatim>\<open>jwt.verify\<close> throws, the request is answered with status 401 and never passed on:
  every \<^verbatim>\<open>JsonWebTokenError\<close> (a malformed token and a bad signature alike, whatever
  the error's message) gives the one answer ``Invalid access token'', and a
  \<^verbatim>\<open>TokenExpiredError\<close> gives the answer ``Access token has expired''.
\<close>

theorem token_failures_answer:
  assumes "prefix ''Bearer '' authHeader"
    and "jwt_verify (drop 7 authHeader) = Inl err"
  shows "(name err = ''JsonWebTokenError'' \<longrightarrow>
            authenticate jwt_verify findById now (Some authHeader)
              = Json 401 ''Unauthorized'' ''Invalid access token'') \<and>
         (name err = ''TokenExpiredError'' \<longrightarrow>
            authenticate jwt_verify findById now (Some authHeader)
              = Json 401 ''Unauthorized'' ''Access token has expired'')"
  using assms by (auto simp: authenticate_def authenticate_catch_def)

theorem token_failures_answer_witness:
  "authenticate (jwtThrows jwt_malformed) (findIn [newUser]) 0 (Some ''Bearer abc'')
     = Json 401 ''Unauthorized'' ''Invalid access token'' \<and>
   authenticate (jwtThrows invalid_signature) (findIn [newUser]) 0 (Some ''Bearer abc'')
     = Json 401 ''Unauthorized'' ''Invalid access token'' \<and>
   authenticate (jwtThrows jwt_expired) (findIn [newUser]) 0 (Some ''Bearer abc'')
     = Json 401 ''Unauthorized'' ''Access token has expired''"
  using token_failures_answer [where authHeader = "''Bearer abc''" and err = jwt_malformed
      and jwt_verify = "jwtThrows jwt_malformed" and findById = "findIn [newUser]" and now = 0]
    token_failures_answer [where authHeader = "''Bearer abc''" and err = invalid_signature
      and jwt_verify = "jwtThrows invalid_signature" and findById = "findIn [newUser]" and now = 0]
    token_failures_answer [where authHeader = "''Bearer abc''" and err = jwt_expired
      and jwt_verify = "jwtThrows jwt_expired" and findById = "findIn [newUser]" and now = 0]
  by (simp add: jwtThrows_def jwt_malformed_def invalid_signature_def jwt_expired_def)

text \<open>
  Claim C1 as it is worded wants one answer for all three failures. An expired token and
  a malformed token are answered differently.
\<close>

theorem expired_token_counterexample:
  "authenticate (jwtThrows jwt_expired) (findIn [newUser]) 0 (Some ''Bearer abc'')
     \<noteq> authenticate (jwtThrows jwt_malformed) (findIn [newUser]) 0 (Some ''Bearer abc'')"
  by (simp add: authenticate_def authenticate_catch_def jwtThrows_def jwt_expired_def
      jwt_malformed_def)

text \<open>
  Claim C2, as the code has it. Once the token has been verified, the middleware loads
  the user named by the token's \<^verbatim>\<open>id\<close> from the database on that same request: no
  such user gives 401, an inactive user gives 401, a user whose lock has not run out
  gives 423, and otherwise the request goes on with the user record that was loaded.
\<close>

theorem authenticate_reads_user:
  assumes "prefix ''Bearer '' authHeader"
    and "jwt_verify (drop 7 authHeader) = Inr decoded"
  shows "(findById (payload_id decoded) = Inr None \<longrightarrow>
            authenticate jwt_verify findById now (Some authHeader)
              = Json 401 ''Unauthorized'' ''Invalid access token'') \<and>
         (\<forall>u. findById (payload_id decoded) = Inr (Some u) \<longrightarrow>
            authenticate jwt_verify findById now (Some authHeader)
              = (if \<not> isActive u then Json 401 ''Unauthorized'' ''Account is not active''
                 else if isAccountLocked now u
                 then Json 423 ''Account Locked'' ''Account is temporarily locked''
                 else Next u))"
  using assms by (auto simp: authenticate_def)

theorem authenticate_reads_user_witness:
  "authenticate jwtAccepts (findIn []) 6000 (Some ''Bearer abc'')
     = Json 401 ''Unauthorized'' ''Invalid access token'' \<and>
   authenticate jwtAccepts (findIn [newUser\<lparr>isActive := False\<rparr>]) 6000 (Some ''Bearer abc'')
     = Json 401 ''Unauthorized'' ''Account is not active'' \<and>
   authenticate jwtAccepts (findIn [newUser\<lparr>isLocked := True, lockUntil := Some (Date 9000)\<rparr>])
       6000 (Some ''Bearer abc'')
     = Json 423 ''Account Locked'' ''Account is temporarily locked'' \<and>
   authenticate jwtAccepts (findIn [newUser]) 6000 (Some ''Bearer abc'') = Next newUser"
  using authenticate_reads_user [where authHeader = "''Bearer abc''" and jwt_verify = jwtAccepts
      and decoded = "\<lparr>payload_id = Some ''u1'', payload_email = Some ''ann@example.org'',
          payload_roles = [''APPLICANT'']\<rparr>" and findById = "findIn []" and now = 6000]
    authenticate_reads_user [where authHeader = "''Bearer abc''" and jwt_verify = jwtAccepts
      and decoded = "\<lparr>payload_id = Some ''u1'', payload_email = Some ''ann@example.org'',
          payload_roles = [''APPLICANT'']\<rparr>"
      and findById = "findIn [newUser\<lparr>isActive := False\<rparr>]" and now = 6000]
    authenticate_reads_user [where authHeader = "''Bearer abc''" and jwt_verify = jwtAccepts
      and decoded = "\<lparr>payload_id = Some ''u1'', payload_email = Some ''ann@example.org'',
          payload_roles = [''APPLICANT'']\<rparr>"
      and findById = "findIn [newUser\<lparr>isLocked := True, lockUntil := Some (Date 9000)\<rparr>]"
      and now = 6000]
    authenticate_reads_user [where authHeader = "''Bearer abc''" and jwt_verify = jwtAccepts
      and decoded = "\<lparr>payload_id = Some ''u1'', payload_email = Some ''ann@example.org'',
          payload_roles = [''APPLICANT'']\<rparr>" and findById = "findIn [newUser]" and now = 6000]
  by (simp add: jwtAccepts_def findIn_def newUser_def isAccountLocked_def)

text \<open>
  Claim C2 as it is worded has the database never consulted, so that a deactivation
  shows only at the next issuance. The same valid token is passed on while the account
  is active and refused as soon as the stored account is inactive.
\<close>

theorem deactivated_user_counterexample:
  "authenticate jwtAccepts (findIn [newUser]) 6000 (Some ''Bearer abc'') = Next newUser \<and>
   authenticate jwtAccepts (findIn [newUser\<lparr>isActive := False\<rparr>]) 6000 (Some ''Bearer abc'')
     = Json 401 ''Unauthorized'' ''Account is not active''"
  by (simp add: authenticate_def jwtAccepts_def findIn_def newUser_def isAccountLocked_def)

section \<open>The CSRF guard\<close>

lemma skipsValidation_updates:
  "skipsValidation (req\<lparr>session := sess, header_csrf := hdr, body := b\<rparr>) = skipsValidation req"
  by (simp add: skipsValidation_def)

lemma csrf_skip: "skipsValidation req \<Longrightarrow> csrfProtection req = Inr (Next ())"
  by (auto simp: skipsValidation_def csrfProtection_def)

lemma csrf_no_session:
  "\<not> skipsValidation req \<Longrightarrow> session req = None \<Longrightarrow>
   csrfProtection req = Inr (Json 403 ''Forbidden'' ''Session required for CSRF protection'')"
  by (auto simp: skipsValidation_def csrfProtection_def)

lemma csrf_missing_token:
  "\<not> skipsValidation req \<Longrightarrow> session req = Some sess \<Longrightarrow> suppliedToken req = Inr c \<Longrightarrow>
   \<not> truthy c \<or> \<not> truthy (csrfToken sess) \<Longrightarrow>
   csrfProtection req = Inr (Json 403 ''Forbidden'' ''CSRF token required'')"
  by (cases c; cases "csrfToken sess") (auto simp: skipsValidation_def csrfProtection_def)

lemma csrf_same_length:
  "\<not> skipsValidation req \<Longrightarrow> session req = Some sess \<Longrightarrow> suppliedToken req = Inr (Some c) \<Longrightarrow>
   csrfToken sess = Some t \<Longrightarrow> c \<noteq> [] \<Longrightarrow> t \<noteq> [] \<Longrightarrow> length c = length t \<Longrightarrow>
   csrfProtection req =
     (if c = t then Inr (Next ()) else Inr (Json 403 ''Forbidden'' ''Invalid CSRF token''))"
  by (auto simp: skipsValidation_def csrfProtection_def timingSafeEqual_def)

lemma length_toHex: "length (toHex bytes) = 2 * length bytes"
  by (induction bytes) (simp_all add: toHex_def)

lemma suppliedToken_header:
  "header_csrf req = Some c \<Longrightarrow> c \<noteq> [] \<Longrightarrow> suppliedToken req = Inr (Some c)"
  by (simp add: suppliedToken_def)

lemma suppliedToken_body:
  "\<not> truthy (header_csrf req) \<Longrightarrow> body req = Some b \<Longrightarrow> suppliedToken req = Inr (body_csrf b)"
  by (simp add: suppliedToken_def)

lemma grantPost_validated: "\<not> skipsValidation (grantPost session0 header0)"
  by (simp add: skipsValidation_def grantPost_def safeMethods_def skipPaths_def)

text \<open>Different bytes have different hexadecimal forms.\<close>

lemma hexDigit_inj:
  assumes "a < 16" and "b < 16" and "hexDigit a = hexDigit b"
  shows "a = b"
proof -
  have d: "distinct ''0123456789abcdef''" by simp
  have l: "length ''0123456789abcdef'' = 16" by simp
  from assms have "''0123456789abcdef'' ! a = ''0123456789abcdef'' ! b"
    by (simp add: hexDigit_def)
  with d l assms(1,2) show ?thesis
    by (metis nth_eq_iff_index_eq)
qed

lemma byte_hex_inj:
  assumes "a < 256" and "b < 256"
    and "hexDigit (a div 16) = hexDigit (b div 16)"
    and "hexDigit (a mod 16) = hexDigit (b mod 16)"
  shows "a = (b::nat)"
proof -
  have "a div 16 < 16" and "b div 16 < 16" using assms(1,2) by simp_all
  then have q: "a div 16 = b div 16" using assms(3) by (rule hexDigit_inj)
  have "a mod 16 = b mod 16" using assms(4) by (intro hexDigit_inj) simp_all
  with q show ?thesis by (metis div_mult_mod_eq)
qed

lemma toHex_Cons:
  "toHex (b # bytes) = hexDigit (b div 16) # hexDigit (b mod 16) # toHex bytes"
  by (simp add: toHex_def)

lemma toHex_inj:
  assumes "length xs = length ys"
    and "\<forall>x \<in> set xs. x < 256" and "\<forall>y \<in> set ys. y < 256"
    and "toHex xs = toHex ys"
  shows "xs = ys"
  using assms
proof (induction xs ys rule: list_induct2)
  case Nil
  then show ?case by simp
next
  case (Cons x xs y ys)
  from Cons.prems(3) have h: "hexDigit (x div 16) = hexDigit (y div 16)"
    "hexDigit (x mod 16) = hexDigit (y mod 16)" and rest: "toHex xs = toHex ys"
    by (simp_all add: toHex_Cons)
  have "x = y" using Cons.prems(1,2) h by (intro byte_hex_inj) simp_all
  moreover have "xs = ys" using Cons.IH Cons.prems(1,2) rest by simp
  ultimately show ?case by simp
qed

text \<open>
  Claim C6, as the code has it. The guard passes a request on whatever its session and
  tokens are exactly when its method is GET, HEAD or OPTIONS or its path starts with one
  of the eight \<open>skipPaths\<close>. Every other request is answered 403 when it has no
  session. With a session, let the request carry a non-empty \<^verbatim>\<open>x-csrf-token\<close> header,
  which is then the supplied token, or no such header and a parsed body, whose
  \<^verbatim>\<open>_csrf\<close> field is then the supplied token. It is answered 403 when the supplied
  or the stored token is missing or empty, and 403 when the supplied token has the length
  of the stored one and differs from it; it is passed on when the two are equal. So a
  token that \<^verbatim>\<open>generateCsrfToken\<close> issued for one session, sent in the header, is
  answered 403 on a session whose token was issued from another draw of 32 random bytes.
\<close>

theorem csrf_guard:
  "((\<forall>sess hdr b. csrfProtection (req\<lparr>session := sess, header_csrf := hdr, body := b\<rparr>)
        = Inr (Next ())) \<longleftrightarrow> skipsValidation req) \<and>
   (\<not> skipsValidation req \<longrightarrow>
      (session req = None \<longrightarrow>
         csrfProtection req = Inr (Json 403 ''Forbidden'' ''Session required for CSRF protection'')) \<and>
      (\<forall>sess b. session req = Some sess \<and> \<not> truthy (header_csrf req) \<and> body req = Some b \<and>
           \<not> truthy (body_csrf b) \<longrightarrow>
         csrfProtection req = Inr (Json 403 ''Forbidden'' ''CSRF token required'')) \<and>
      (\<forall>sess b c. session req = Some sess \<and>
           (header_csrf req = Some c \<or>
            \<not> truthy (header_csrf req) \<and> body req = Some b \<and> body_csrf b = Some c) \<and>
           c \<noteq> [] \<longrightarrow>
         (\<not> truthy (csrfToken sess) \<longrightarrow>
            csrfProtection req = Inr (Json 403 ''Forbidden'' ''CSRF token required'')) \<and>
         (\<forall>t. csrfToken sess = Some t \<and> t \<noteq> [] \<and> length c = length t \<longrightarrow>
            csrfProtection req =
              (if c = t then Inr (Next ())
               else Inr (Json 403 ''Forbidden'' ''Invalid CSRF token'')))) \<and>
      (\<forall>bytes1 req1 token1 req1' bytes2 req2 token2 req2'.
           generateCsrfToken bytes1 req1 = Inr (token1, req1') \<and>
           generateCsrfToken bytes2 req2 = Inr (token2, req2') \<and>
           length bytes1 = 32 \<and> length bytes2 = 32 \<and>
           (\<forall>x \<in> set bytes1. x < 256) \<and> (\<forall>x \<in> set bytes2. x < 256) \<and> bytes1 \<noteq> bytes2 \<and>
           session req = session req2' \<and> header_csrf req = Some token1 \<longrightarrow>
         csrfProtection req = Inr (Json 403 ''Forbidden'' ''Invalid CSRF token'')))"
proof (intro conjI impI allI)
  show "(\<forall>sess hdr b. csrfProtection (req\<lparr>session := sess, header_csrf := hdr, body := b\<rparr>)
        = Inr (Next ())) \<longleftrightarrow> skipsValidation req"
  proof
    assume all: "\<forall>sess hdr b.
        csrfProtection (req\<lparr>session := sess, header_csrf := hdr, body := b\<rparr>) = Inr (Next ())"
    show "skipsValidation req"
    proof (rule ccontr)
      assume "\<not> skipsValidation req"
      then have "\<not> skipsValidation (req\<lparr>session := None, header_csrf := None, body := None\<rparr>)"
        by (simp add: skipsValidation_updates)
      then have "csrfProtection (req\<lparr>session := None, header_csrf := None, body := None\<rparr>)
          = Inr (Json 403 ''Forbidden'' ''Session required for CSRF protection'')"
        by (rule csrf_no_session) simp
      with all show False by simp
    qed
  next
    assume "skipsValidation req"
    then show "\<forall>sess hdr b.
        csrfProtection (req\<lparr>session := sess, header_csrf := hdr, body := b\<rparr>) = Inr (Next ())"
      by (simp add: csrf_skip skipsValidation_updates)
  qed
next
  assume "\<not> skipsValidation req" "session req = None"
  then show "csrfProtection req
      = Inr (Json 403 ''Forbidden'' ''Session required for CSRF protection'')"
    by (rule csrf_no_session)
next
  fix sess b
  assume ns: "\<not> skipsValidation req"
    and h: "session req = Some sess \<and> \<not> truthy (header_csrf req) \<and> body req = Some b \<and>
       \<not> truthy (body_csrf b)"
  then have "suppliedToken req = Inr (body_csrf b)"
    by (simp add: suppliedToken_body)
  with ns h show "csrfProtection req = Inr (Json 403 ''Forbidden'' ''CSRF token required'')"
    using csrf_missing_token by blast
next
  fix sess b c
  assume ns: "\<not> skipsValidation req"
    and h: "session req = Some sess \<and>
       (header_csrf req = Some c \<or>
        \<not> truthy (header_csrf req) \<and> body req = Some b \<and> body_csrf b = Some c) \<and> c \<noteq> []"
    and m: "\<not> truthy (csrfToken sess)"
  from h have "suppliedToken req = Inr (Some c)"
    by (auto simp: suppliedToken_header suppliedToken_body)
  with ns h m show "csrfProtection req = Inr (Json 403 ''Forbidden'' ''CSRF token required'')"
    using csrf_missing_token by blast
next
  fix sess b c t
  assume ns: "\<not> skipsValidation req"
    and h: "session req = Some sess \<and>
       (header_csrf req = Some c \<or>
        \<not> truthy (header_csrf req) \<and> body req = Some b \<and> body_csrf b = Some c) \<and> c \<noteq> []"
    and t: "csrfToken sess = Some t \<and> t \<noteq> [] \<and> length c = length t"
  from h have "suppliedToken req = Inr (Some c)"
    by (auto simp: suppliedToken_header suppliedToken_body)
  with ns h t show "csrfProtection req =
      (if c = t then Inr (Next ()) else Inr (Json 403 ''Forbidden'' ''Invalid CSRF token''))"
    using csrf_same_length by blast
next
  fix bytes1 req1 token1 req1' bytes2 req2 token2 req2'
  assume ns: "\<not> skipsValidation req"
    and h: "generateCsrfToken bytes1 req1 = Inr (token1, req1') \<and>
           generateCsrfToken bytes2 req2 = Inr (token2, req2') \<and>
           length bytes1 = 32 \<and> length bytes2 = 32 \<and>
           (\<forall>x \<in> set bytes1. x < 256) \<and> (\<forall>x \<in> set bytes2. x < 256) \<and> bytes1 \<noteq> bytes2 \<and>
           session req = session req2' \<and> header_csrf req = Some token1"
  from h have a: "token1 = toHex bytes1"
    by (auto simp: generateCsrfToken_def Let_def split: option.splits)
  from h obtain sess2 where b: "token2 = toHex bytes2"
    and sb: "session req2' = Some sess2" and tb: "csrfToken sess2 = Some token2"
    by (auto simp: generateCsrfToken_def Let_def split: option.splits)
  have ne: "token1 \<noteq> token2"
  proof
    assume "token1 = token2"
    then have "toHex bytes1 = toHex bytes2" using a b by simp
    moreover have "length bytes1 = length bytes2" using h by simp
    ultimately have "bytes1 = bytes2" using h by (intro toHex_inj) simp_all
    with h show False by simp
  qed
  have la: "length token1 = 64" and lb: "length token2 = 64"
    using h a b by (simp_all add: length_toHex)
  then have na: "token1 \<noteq> []" and nb: "token2 \<noteq> []" by auto
  have st: "suppliedToken req = Inr (Some token1)"
    using h na by (simp add: suppliedToken_header)
  have sr: "session req = Some sess2" using h sb by simp
  have "csrfProtection req =
      (if token1 = token2 then Inr (Next ()) else Inr (Json 403 ''Forbidden'' ''Invalid CSRF token''))"
    using csrf_same_length [OF ns sr st tb na nb] la lb by simp
  with ne show "csrfProtection req = Inr (Json 403 ''Forbidden'' ''Invalid CSRF token'')"
    by simp
qed

text \<open>
  The guard on concrete requests: a POST to a path that validation is skipped for; a
  POST to \<^verbatim>\<open>/api/grants\<close> with no session, with no token in header or body, with a
  token on a session that stores none, with a wrong token of the right length, with the
  right token, and with the token issued for another session.
\<close>

theorem csrf_guard_witness:
  "csrfProtection (siemPost\<lparr>session := None, header_csrf := None, body := None\<rparr>) = Inr (Next ()) \<and>
   csrfProtection (grantPost None (Some ''abcd''))
     = Inr (Json 403 ''Forbidden'' ''Session required for CSRF protection'') \<and>
   csrfProtection (grantPost (Some (sessionWith ''abcd'')) None)
     = Inr (Json 403 ''Forbidden'' ''CSRF token required'') \<and>
   csrfProtection (grantPost (Some (sessionWith [])) (Some ''abcd''))
     = Inr (Json 403 ''Forbidden'' ''CSRF token required'') \<and>
   csrfProtection (grantPost (Some (sessionWith ''abcd'')) (Some ''abce''))
     = Inr (Json 403 ''Forbidden'' ''Invalid CSRF token'') \<and>
   csrfProtection (grantPost (Some (sessionWith ''abcd'')) (Some ''abcd'')) = Inr (Next ()) \<and>
   csrfProtection (grantPost (Some sessionB) (Some (toHex bytesA)))
     = Inr (Json 403 ''Forbidden'' ''Invalid CSRF token'')"
proof -
  note validated = csrf_guard [THEN conjunct2, THEN mp, OF grantPost_validated]
  note no_session = validated [THEN conjunct1, rule_format]
  note no_supplied = validated [THEN conjunct2, THEN conjunct1, rule_format]
  note supplied = validated [THEN conjunct2, THEN conjunct2, THEN conjunct1, rule_format]
  note stored_missing = supplied [THEN conjunct1, rule_format]
  note same_length = supplied [THEN conjunct2, rule_format]
  note other_session = validated [THEN conjunct2, THEN conjunct2, THEN conjunct2, rule_format]
  have skip: "skipsValidation siemPost"
    by (simp add: skipsValidation_def siemPost_def safeMethods_def skipPaths_def)
  have w1: "csrfProtection (siemPost\<lparr>session := None, header_csrf := None, body := None\<rparr>)
      = Inr (Next ())"
    using csrf_guard [of siemPost, THEN conjunct1] skip by simp
  have w2: "csrfProtection (grantPost None (Some ''abcd''))
      = Inr (Json 403 ''Forbidden'' ''Session required for CSRF protection'')"
    by (rule no_session) (simp add: grantPost_def)
  have w3: "csrfProtection (grantPost (Some (sessionWith ''abcd'')) None)
      = Inr (Json 403 ''Forbidden'' ''CSRF token required'')"
    by (rule no_supplied [where sess = "sessionWith ''abcd''" and b = "\<lparr>body_csrf = None\<rparr>"])
      (simp add: grantPost_def)
  have w4: "csrfProtection (grantPost (Some (sessionWith [])) (Some ''abcd''))
      = Inr (Json 403 ''Forbidden'' ''CSRF token required'')"
    by (rule stored_missing [where sess = "sessionWith []" and c = "''abcd''"])
      (simp_all add: grantPost_def sessionWith_def)
  have w5: "csrfProtection (grantPost (Some (sessionWith ''abcd'')) (Some ''abce''))
      = (if ''abce'' = ''abcd'' then Inr (Next ())
         else Inr (Json 403 ''Forbidden'' ''Invalid CSRF token''))"
    by (rule same_length [where sess = "sessionWith ''abcd''" and c = "''abce''"])
      (simp_all add: grantPost_def sessionWith_def)
  have w6: "csrfProtection (grantPost (Some (sessionWith ''abcd'')) (Some ''abcd''))
      = (if ''abcd'' = ''abcd'' then Inr (Next ())
         else Inr (Json 403 ''Forbidden'' ''Invalid CSRF token''))"
    by (rule same_length [where sess = "sessionWith ''abcd''" and c = "''abcd''"])
      (simp_all add: grantPost_def sessionWith_def)
  have w7: "csrfProtection (grantPost (Some sessionB) (Some (toHex bytesA)))
      = Inr (Json 403 ''Forbidden'' ''Invalid CSRF token'')"
  proof (rule other_session [where ?bytes1.0 = bytesA and ?bytes2.0 = bytesB
        and ?req1.0 = "grantPost (Some (sessionWith [])) None"
        and ?req2.0 = "grantPost (Some (sessionWith [])) None"])
    show "generateCsrfToken bytesA (grantPost (Some (sessionWith [])) None)
        = Inr (toHex bytesA,
               grantPost (Some (sessionWith [])) None
                 \<lparr>session := Some (sessionWith []\<lparr>csrfToken := Some (toHex bytesA)\<rparr>)\<rparr>) \<and>
      generateCsrfToken bytesB (grantPost (Some (sessionWith [])) None)
        = Inr (toHex bytesB,
               grantPost (Some (sessionWith [])) None
                 \<lparr>session := Some (sessionWith []\<lparr>csrfToken := Some (toHex bytesB)\<rparr>)\<rparr>) \<and>
      length bytesA = 32 \<and> length bytesB = 32 \<and>
      (\<forall>x \<in> set bytesA. x < 256) \<and> (\<forall>x \<in> set bytesB. x < 256) \<and> bytesA \<noteq> bytesB \<and>
      session (grantPost (Some sessionB) (Some (toHex bytesA)))
        = session (grantPost (Some (sessionWith [])) None
                 \<lparr>session := Some (sessionWith []\<lparr>csrfToken := Some (toHex bytesB)\<rparr>)\<rparr>) \<and>
      header_csrf (grantPost (Some sessionB) (Some (toHex bytesA))) = Some (toHex bytesA)"
      by (simp add: generateCsrfToken_def grantPost_def sessionWith_def sessionB_def Let_def
          bytesA_def bytesB_def)
  qed
  from w1 w2 w3 w4 w5 w6 w7 show ?thesis by simp
qed

text \<open>
  Claim C6 as it is worded skips validation only for side-effect-free methods and for
  login, registration, token refresh and federated-login callbacks. A POST to
  \<^verbatim>\<open>/api/logs/siem\<close> with no session and no token is none of these, and it is
  passed on.
\<close>

theorem siem_post_counterexample:
  "http_method siemPost = ''POST'' \<and> path siemPost = ''/api/logs/siem'' \<and>
   session siemPost = None \<and> header_csrf siemPost = None \<and>
   csrfProtection siemPost = Inr (Next ())"
  by (simp add: siemPost_def csrfProtection_def safeMethods_def skipPaths_def)

text \<open>
  Claim C9. A request that the guard validates, on a session with a stored token, whose
  supplied token is not empty and has another byte length than the stored one, is not
  answered at all: \<^verbatim>\<open>crypto.timingSafeEqual\<close> throws a \<^verbatim>\<open>RangeError\<close> and the
  guard lets it escape.
\<close>

theorem csrf_length_mismatch_throws:
  "\<not> skipsValidation req \<Longrightarrow> session req = Some sess \<Longrightarrow> csrfToken sess = Some t \<Longrightarrow>
   suppliedToken req = Inr (Some c) \<Longrightarrow> c \<noteq> [] \<Longrightarrow> t \<noteq> [] \<Longrightarrow> length c \<noteq> length t \<Longrightarrow>
   csrfProtection req =
     Inl \<lparr>name = ''RangeError'', message = ''Input buffers must have the same byte length''\<rparr>"
  by (auto simp: skipsValidation_def csrfProtection_def timingSafeEqual_def)

theorem csrf_length_mismatch_throws_witness:
  "\<not> skipsValidation (grantPost (Some (sessionWith ''abcd'')) (Some ''abc'')) \<and>
   length ''abc'' \<noteq> length ''abcd'' \<and>
   csrfProtection (grantPost (Some (sessionWith ''abcd'')) (Some ''abc'')) =
     Inl \<lparr>name = ''RangeError'', message = ''Input buffers must have the same byte length''\<rparr>"
  using csrf_length_mismatch_throws [of "grantPost (Some (sessionWith ''abcd'')) (Some ''abc'')"
      "sessionWith ''abcd''" "''abcd''" "''abc''"] grantPost_validated
  by (simp add: grantPost_def sessionWith_def suppliedToken_def)

section \<open>Serialising a user\<close>

lemma toJSON_transform_eq:
  "toJSON_transform ret = delete_prop ''__v'' (withoutCredentials ret)"
  by (induction ret)
    (auto simp: toJSON_transform_def delete_prop_def withoutCredentials_def credentialFields_def)

text \<open>
  Claim C10. Two objects that are equal once \<open>passwordHash\<close>, \<open>passwordSalt\<close>,
  \<open>passwordHistory\<close> and \<open>twoFactorSecret\<close> are left out are transformed to the same
  object, so that what is serialised from it is the same; and none of the four names is
  a property of a transformed object.
\<close>

theorem toJSON_hides_credentials:
  "withoutCredentials ret1 = withoutCredentials ret2 \<Longrightarrow>
   toJSON_transform ret1 = toJSON_transform ret2 \<and>
   (\<forall>k \<in> set credentialFields. k \<notin> fst ` set (toJSON_transform ret1))"
  by (auto simp: toJSON_transform_eq delete_prop_def withoutCredentials_def)

theorem toJSON_hides_credentials_witness:
  "annObject \<noteq> annObject' \<and> withoutCredentials annObject = withoutCredentials annObject' \<and>
   toJSON_transform annObject = toJSON_transform annObject' \<and>
   toJSON_transform annObject
     = [(''_id'', ''u1''), (''email'', ''ann@example.org''), (''isActive'', ''true'')] \<and>
   ''passwordHash'' \<notin> fst ` set (toJSON_transform annObject)"
proof -
  have d: "annObject \<noteq> annObject'"
    by (simp add: annObject_def annObject'_def)
  have e: "withoutCredentials annObject = withoutCredentials annObject'"
    by (simp add: withoutCredentials_def credentialFields_def annObject_def annObject'_def)
  have v: "toJSON_transform annObject
      = [(''_id'', ''u1''), (''email'', ''ann@example.org''), (''isActive'', ''true'')]"
    by (simp add: toJSON_transform_def delete_prop_def annObject_def)
  have m: "''passwordHash'' \<in> set credentialFields"
    by (simp add: credentialFields_def)
  from toJSON_hides_credentials [OF e] m
  have "toJSON_transform annObject = toJSON_transform annObject'"
    and "''passwordHash'' \<notin> fst ` set (toJSON_transform annObject)"
    by blast+
  with d e v show ?thesis by simp
qed

section \<open>The client's handling of a rejected credential\<close>






end
